theory Spec2Isabelle
  imports Main "HOL-Library.AList"
begin

section \<open>Python values used by the pipeline\<close>

text \<open>
  A Python \<open>str\<close> is a sequence of Unicode code points, so a string is a list of
  code points (natural numbers). String literals of the source are written with
  \<open>ustr\<close>, which maps an ASCII literal to its code points.
\<close>

type_synonym pystr = "nat list"

definition ustr :: "string \<Rightarrow> pystr" where
  "ustr s = map of_char s"

text \<open>\<open>str(n)\<close> for a non-negative integer: its decimal digits.\<close>

fun str_of_nat :: "nat \<Rightarrow> pystr" where
  "str_of_nat n =
     (if n < 10 then [48 + n] else str_of_nat (n div 10) @ [48 + n mod 10])"

declare str_of_nat.simps [simp del]

text \<open>\<open>sep.join(xs)\<close>.\<close>

fun py_join :: "pystr \<Rightarrow> pystr list \<Rightarrow> pystr" where
  "py_join sep [] = []"
| "py_join sep [x] = x"
| "py_join sep (x # y # ys) = x @ sep @ py_join sep (y # ys)"

text \<open>
  The values \<open>yaml.safe_load\<close> builds, and that the code then inspects dynamically:
  \<open>None\<close>, booleans, integers, strings, lists and dicts. A dict is an association
  list in insertion order; its keys are strings.
\<close>

datatype pyval =
    PNone
  | PBool bool
  | PInt int
  | PStr pystr
  | PList "pyval list"
  | PDict "(pystr \<times> pyval) list"

text \<open>
  The exceptions (instances of Python's class \<open>Exception\<close>) that the code raises
  or handles. \<open>YAMLError\<close> stands for every instance of \<open>yaml.YAMLError\<close>,
  \<open>OtherException\<close> for every instance of a class that no handler of the source
  names.
\<close>

datatype exn =
    FileNotFoundError
  | YAMLError pystr
  | AttributeError
  | KeyError pystr
  | TypeError
  | OtherException pystr

subsection \<open>Logging and standard output\<close>

datatype level = INFO | WARNING | ERROR

text \<open>
  A message is kept as the sequence of its literal fragments and interpolated values,
  in order, the values unrendered.
\<close>

datatype part =
    Lit pystr
  | ArgStr pystr
  | ArgNat nat
  | ArgExn exn
  | ArgVal pyval
  | ArgUrls "(pystr \<times> pyval list) list"

datatype event =
    Log level "part list"
  | Print "part list"

text \<open>
  Modelled from the spec: the module \<open>logger\<close> of the repository, which the source
  files import, is not among them. The spec has it send informational, warning and
  error messages to a process-wide logger, outside the functional contract: a call
  appends one event to the trace and never raises.
\<close>

definition logger_info :: "part list \<Rightarrow> event list" where
  "logger_info msg = [Log INFO msg]"

definition logger_warning :: "part list \<Rightarrow> event list" where
  "logger_warning msg = [Log WARNING msg]"

definition logger_error :: "part list \<Rightarrow> event list" where
  "logger_error msg = [Log ERROR msg]"

text \<open>
  A call of the program yields the trace of events it emitted and either the
  exception it raised or the value it returned.
\<close>

type_synonym 'a outcome = "event list \<times> (exn + 'a)"

section \<open>vectorstore\_utils.py\<close>

record document =
  page_content :: pystr
  metadata :: "(pystr \<times> pyval) list"

text \<open>
  A vector store is known to this code only through the retriever it hands out:
  \<open>as_retriever(search_kwargs={"k": k}).invoke(query)\<close>.
\<close>

datatype vectorstore =
  VectorStore (retrieve: "nat \<Rightarrow> pystr \<Rightarrow> exn + document list")

text \<open>
  What the module reads from its surroundings: the constant \<open>PERSIST_PATH\<close>
  (computed once from the working directory), \<open>os.path.exists\<close>, and the outcome
  of constructing an \<open>SKLearnVectorStore\<close> with a persist path, the default
  \<open>HuggingFaceEmbeddings()\<close> and the parquet serializer.
\<close>

record vs_env =
  PERSIST_PATH :: pystr
  path_exists :: "pystr \<Rightarrow> bool"
  SKLearnVectorStore :: "pystr \<Rightarrow> exn + vectorstore"

definition load_vectorstore :: "vs_env \<Rightarrow> vectorstore option outcome" where
  "load_vectorstore env =
     (if path_exists env (PERSIST_PATH env) then
        (let t1 = logger_info
               [Lit (ustr ''Loading existing SKLearnVectorStore from ''),
                ArgStr (PERSIST_PATH env)]
         in case SKLearnVectorStore env (PERSIST_PATH env) of
              Inr vectorstore \<Rightarrow> (t1, Inr (Some vectorstore))
            | Inl e \<Rightarrow>
                (t1 @ logger_error [Lit (ustr ''Error loading vector store: ''), ArgExn e],
                 Inr None))
      else
        (logger_warning
           [Lit (ustr ''No existing vector store found at ''), ArgStr (PERSIST_PATH env)],
         Inr None))"

section \<open>langgraph-mcp.py\<close>

text \<open>One element of the list comprehension: \<open>f"==DOCUMENT {i+1}==\n{doc.page_content}"\<close>.\<close>

definition format_doc :: "nat \<times> document \<Rightarrow> pystr" where
  "format_doc p =
     ustr ''==DOCUMENT '' @ str_of_nat (fst p + 1) @ ustr ''=='' @ [10] @ page_content (snd p)"

definition formatted_context :: "document list \<Rightarrow> pystr" where
  "formatted_context relevant_docs =
     py_join [10, 10] (map format_doc (enumerate 0 relevant_docs))"

definition langgraph_query_tool :: "vs_env \<Rightarrow> pystr \<Rightarrow> pystr outcome" where
  "langgraph_query_tool env query =
     (case load_vectorstore env of
        (t, Inl e) \<Rightarrow> (t, Inl e)
      | (t, Inr None) \<Rightarrow> (t, Inl AttributeError)
      | (t, Inr (Some vs)) \<Rightarrow>
          (case retrieve vs 3 query of
             Inl e \<Rightarrow> (t, Inl e)
           | Inr relevant_docs \<Rightarrow>
               (t @ [Print [Lit (ustr ''Retrieved ''), ArgNat (length relevant_docs),
                            Lit (ustr '' relevant documents'')]],
                Inr (formatted_context relevant_docs))))"

section \<open>doc\_utils.py\<close>

subsection \<open>Dynamic operations on Python values\<close>

text \<open>\<open>needle in hay\<close> on two strings: substring test.\<close>

fun str_contains :: "pystr \<Rightarrow> pystr \<Rightarrow> bool" where
  "str_contains needle [] = (needle = [])"
| "str_contains needle (c # cs) =
     (take (length needle) (c # cs) = needle \<or> str_contains needle cs)"

text \<open>
  \<open>k in v\<close> for a string \<open>k\<close>: key membership on a dict, element membership on a
  list, substring test on a string, \<open>TypeError\<close> on anything else.
\<close>

fun py_contains :: "pystr \<Rightarrow> pyval \<Rightarrow> exn + bool" where
  "py_contains k (PDict kvs) = Inr (k \<in> set (map fst kvs))"
| "py_contains k (PList xs) = Inr (PStr k \<in> set xs)"
| "py_contains k (PStr s) = Inr (str_contains k s)"
| "py_contains k _ = Inl TypeError"

text \<open>
  \<open>v[k]\<close> for a string \<open>k\<close>: lookup on a dict (\<open>KeyError\<close> when absent),
  \<open>TypeError\<close> on anything else (lists and strings take integer indices only).
\<close>

fun py_getitem :: "pyval \<Rightarrow> pystr \<Rightarrow> exn + pyval" where
  "py_getitem (PDict kvs) k =
     (case map_of kvs k of Some v \<Rightarrow> Inr v | None \<Rightarrow> Inl (KeyError k))"
| "py_getitem _ k = Inl TypeError"

text \<open>
  \<open>for x in v\<close>: the elements of a list, the keys of a dict, the characters of a
  string, \<open>TypeError\<close> on anything else.
\<close>

fun py_iter :: "pyval \<Rightarrow> exn + pyval list" where
  "py_iter (PList xs) = Inr xs"
| "py_iter (PDict kvs) = Inr (map (\<lambda>kv. PStr (fst kv)) kvs)"
| "py_iter (PStr s) = Inr (map (\<lambda>c. PStr [c]) s)"
| "py_iter _ = Inl TypeError"

text \<open>\<open>v.get(k, d)\<close> and \<open>v.items()\<close>: only a dict has these attributes.\<close>

fun py_get :: "pyval \<Rightarrow> pystr \<Rightarrow> pyval \<Rightarrow> exn + pyval" where
  "py_get (PDict kvs) k d = Inr (case map_of kvs k of Some v \<Rightarrow> v | None \<Rightarrow> d)"
| "py_get _ k d = Inl AttributeError"

fun py_items :: "pyval \<Rightarrow> exn + (pystr \<times> pyval) list" where
  "py_items (PDict kvs) = Inr kvs"
| "py_items _ = Inl AttributeError"

text \<open>
  A comprehension \<open>[f(x) for x in xs]\<close> whose body may raise: the first exception
  ends the evaluation.
\<close>

fun map_exn :: "('a \<Rightarrow> exn + 'b) \<Rightarrow> 'a list \<Rightarrow> exn + 'b list" where
  "map_exn f [] = Inr []"
| "map_exn f (x # xs) =
     (case f x of
        Inl e \<Rightarrow> Inl e
      | Inr y \<Rightarrow> (case map_exn f xs of Inl e \<Rightarrow> Inl e | Inr ys \<Rightarrow> Inr (y # ys)))"

subsection \<open>bs4\_extractor\<close>

text \<open>
  BeautifulSoup is a library: the parsed page is known through \<open>soup.find(name,
  class_=c)\<close>, which gives the first matching element or \<open>None\<close>, through
  \<open>soup.text\<close>, and an element through \<open>get_text()\<close>. An element is truthy
  whatever its contents, so \<open>if main_content\<close> tests for \<open>None\<close>.
\<close>

datatype tag = Tag (get_text: pystr)

record soup =
  soup_find :: "pystr \<Rightarrow> pystr \<Rightarrow> tag option"
  soup_text :: pystr

text \<open>
  \<open>re.sub(r"\n\n+", "\n\n", s)\<close>: scanning from the left, every maximal run of two
  or more newlines (code point 10) is replaced by exactly two.
\<close>

function re_sub_newlines :: "pystr \<Rightarrow> pystr" where
  "re_sub_newlines [] = []"
| "re_sub_newlines [c] = [c]"
| "re_sub_newlines (c # d # cs) =
     (if c = 10 \<and> d = 10 then 10 # 10 # re_sub_newlines (dropWhile (\<lambda>x. x = 10) cs)
      else c # re_sub_newlines (d # cs))"
  by pat_completeness auto
termination
proof (relation "measure length")
  fix c d :: nat and cs :: pystr
  have "length (dropWhile (\<lambda>x. x = 10) cs) \<le> length cs"
    by (rule length_dropWhile_le)
  then show "(dropWhile (\<lambda>x. x = 10) cs, c # d # cs) \<in> measure length"
    by simp
qed simp_all

text \<open>The code points for which \<open>str.isspace\<close> holds: what \<open>str.strip()\<close> removes.\<close>

definition py_isspace :: "nat \<Rightarrow> bool" where
  "py_isspace c \<longleftrightarrow>
     (9 \<le> c \<and> c \<le> 13) \<or> (28 \<le> c \<and> c \<le> 32) \<or> c = 133 \<or> c = 160 \<or> c = 5760
     \<or> (8192 \<le> c \<and> c \<le> 8202) \<or> c = 8232 \<or> c = 8233 \<or> c = 8239 \<or> c = 8287
     \<or> c = 12288"

definition strip :: "pystr \<Rightarrow> pystr" where
  "strip s = rev (dropWhile py_isspace (rev (dropWhile py_isspace s)))"

definition bs4_extractor :: "(pystr \<Rightarrow> pystr \<Rightarrow> soup) \<Rightarrow> pystr \<Rightarrow> pystr" where
  "bs4_extractor BeautifulSoup html =
     (let soup = BeautifulSoup html (ustr ''lxml'');
          main_content = soup_find soup (ustr ''article'') (ustr ''md-content__inner'');
          content = (case main_content of Some t \<Rightarrow> get_text t | None \<Rightarrow> soup_text soup)
      in strip (re_sub_newlines content))"

subsection \<open>count\_tokens and load\_langgraph\_docs\<close>

text \<open>
  What the module reads from its surroundings: \<open>open(path, "r")\<close> (the stream it
  gives, or the exception), \<open>yaml.safe_load\<close> on that stream, the crawl
  \<open>RecursiveUrlLoader(url, max_depth=d, extractor=f).lazy_load()\<close>, the parser
  \<open>BeautifulSoup(html, features)\<close>, and \<open>tiktoken.get_encoding(model).encode(text)\<close>.
\<close>

record doc_env =
  open_read :: "pystr \<Rightarrow> exn + pystr"
  yaml_safe_load :: "pystr \<Rightarrow> exn + pyval"
  RecursiveUrlLoader :: "pyval \<Rightarrow> nat \<Rightarrow> (pystr \<Rightarrow> pystr) \<Rightarrow> exn + document list"
  BeautifulSoup :: "pystr \<Rightarrow> pystr \<Rightarrow> soup"
  tiktoken_encode :: "pystr \<Rightarrow> pystr \<Rightarrow> exn + nat list"

definition count_tokens :: "doc_env \<Rightarrow> pystr \<Rightarrow> pystr \<Rightarrow> exn + nat" where
  "count_tokens env text model =
     (case tiktoken_encode env model text of Inl e \<Rightarrow> Inl e | Inr toks \<Rightarrow> Inr (length toks))"

definition yaml_file_path :: pystr where
  "yaml_file_path = ustr ''langraph-doc.yaml''"

text \<open>The body of the \<open>try\<close>: open the file, then parse it.\<close>

definition read_config :: "doc_env \<Rightarrow> exn + pyval" where
  "read_config env =
     (case open_read env yaml_file_path of
        Inl e \<Rightarrow> Inl e
      | Inr file \<Rightarrow> yaml_safe_load env file)"

text \<open>\<open>[guide["url"] for guide in content["guides"]]\<close>\<close>

definition guide_urls :: "pyval \<Rightarrow> exn + pyval list" where
  "guide_urls content =
     (case py_getitem content (ustr ''guides'') of
        Inl e \<Rightarrow> Inl e
      | Inr gs \<Rightarrow>
          (case py_iter gs of
             Inl e \<Rightarrow> Inl e
           | Inr guides \<Rightarrow> map_exn (\<lambda>guide. py_getitem guide (ustr ''url'')) guides))"

text \<open>\<open>[link["url"] for guide in content["guides"] for link in guide["links"]]\<close>\<close>

definition link_urls :: "pyval \<Rightarrow> exn + pyval list" where
  "link_urls content =
     (case py_getitem content (ustr ''guides'') of
        Inl e \<Rightarrow> Inl e
      | Inr gs \<Rightarrow>
          (case py_iter gs of
             Inl e \<Rightarrow> Inl e
           | Inr guides \<Rightarrow>
               (case map_exn
                       (\<lambda>guide.
                          case py_getitem guide (ustr ''links'') of
                            Inl e \<Rightarrow> Inl e
                          | Inr ls \<Rightarrow>
                              (case py_iter ls of
                                 Inl e \<Rightarrow> Inl e
                               | Inr links \<Rightarrow>
                                   map_exn (\<lambda>link. py_getitem link (ustr ''url'')) links))
                       guides of
                  Inl e \<Rightarrow> Inl e
                | Inr uss \<Rightarrow> Inr (concat uss))))"

text \<open>
  The loop over \<open>langraph_doc.get("langraph", {}).items()\<close>, with the dict
  \<open>urls\<close> as accumulator; \<open>urls[category] = v\<close> is the update of an
  insertion-ordered dict.
\<close>

type_synonym urls = "(pystr \<times> pyval list) list"

fun extract_loop :: "(pystr \<times> pyval) list \<Rightarrow> urls \<Rightarrow> exn + urls" where
  "extract_loop [] urls = Inr urls"
| "extract_loop ((category, content) # rest) urls =
     (case py_contains (ustr ''guides'') content of
        Inl e \<Rightarrow> Inl e
      | Inr True \<Rightarrow>
          (case guide_urls content of
             Inl e \<Rightarrow> Inl e
           | Inr us \<Rightarrow> extract_loop rest (AList.update category us urls))
      | Inr False \<Rightarrow>
          (case py_contains (ustr ''links'') content of
             Inl e \<Rightarrow> Inl e
           | Inr True \<Rightarrow>
               (case link_urls content of
                  Inl e \<Rightarrow> Inl e
                | Inr us \<Rightarrow> extract_loop rest (AList.update category us urls))
           | Inr False \<Rightarrow> extract_loop rest urls))"

definition extract_urls :: "pyval \<Rightarrow> exn + urls" where
  "extract_urls langraph_doc =
     (case py_get langraph_doc (ustr ''langraph'') (PDict []) of
        Inl e \<Rightarrow> Inl e
      | Inr section \<Rightarrow>
          (case py_items section of
             Inl e \<Rightarrow> Inl e
           | Inr items \<Rightarrow> extract_loop items []))"

text \<open>The crawl: every URL of every category in order, the documents appended.\<close>

definition load_all :: "doc_env \<Rightarrow> urls \<Rightarrow> exn + document list" where
  "load_all env urls =
     (case map_exn (\<lambda>url. RecursiveUrlLoader env url 5 (bs4_extractor (BeautifulSoup env)))
             (concat (map snd urls)) of
        Inl e \<Rightarrow> Inl e
      | Inr dss \<Rightarrow> Inr (concat dss))"

definition doc_source :: "document \<Rightarrow> pyval" where
  "doc_source doc =
     (case map_of (metadata doc) (ustr ''source'') of
        Some v \<Rightarrow> v
      | None \<Rightarrow> PStr (ustr ''Unknown URL''))"

definition log_loaded :: "document list \<Rightarrow> event list" where
  "log_loaded docs =
     logger_info [Lit (ustr ''Loaded ''), ArgNat (length docs),
                  Lit (ustr '' documents from LangGraph documentation.'')]
     @ logger_info [Lit (ustr ''Loaded URLs:'')]
     @ concat (map (\<lambda>p. logger_info [ArgNat (fst p + 1), Lit (ustr ''. ''), ArgVal (doc_source (snd p))])
                 (enumerate 0 docs))"

definition load_langgraph_docs :: "doc_env \<Rightarrow> (document list \<times> nat list) outcome" where
  "load_langgraph_docs env =
     (let t0 = logger_info [Lit (ustr ''Loading LangGraph documentation...'')]
      in case read_config env of
           Inl FileNotFoundError \<Rightarrow>
             (t0 @ logger_error [Lit (ustr ''YAML file not found: ''), ArgStr yaml_file_path],
              Inr ([], []))
         | Inl (YAMLError m) \<Rightarrow>
             (t0 @ logger_error [Lit (ustr ''Error loading YAML file: ''), ArgExn (YAMLError m)],
              Inr ([], []))
         | Inl e \<Rightarrow> (t0, Inl e)
         | Inr langraph_doc \<Rightarrow>
             (case extract_urls langraph_doc of
                Inl e \<Rightarrow> (t0, Inl e)
              | Inr urls \<Rightarrow>
                  (let t1 = t0 @ logger_info [Lit (ustr ''Extracted URLs: ''), ArgUrls urls]
                   in case load_all env urls of
                        Inl e \<Rightarrow> (t1, Inl e)
                      | Inr docs \<Rightarrow>
                          (let t2 = t1 @ log_loaded docs
                           in case map_exn (\<lambda>doc. count_tokens env (page_content doc) (ustr ''cl100k_base'')) docs of
                                Inl e \<Rightarrow> (t2, Inl e)
                              | Inr tokens_per_doc \<Rightarrow>
                                  (t2 @ logger_info [Lit (ustr ''Total tokens in loaded documents: ''),
                                                     ArgNat (sum_list tokens_per_doc)],
                                   Inr (docs, tokens_per_doc))))))"

section \<open>Notions used in the statements\<close>



text \<open>A run of three newlines somewhere in the string.\<close>

fun has_run3 :: "pystr \<Rightarrow> bool" where
  "has_run3 (a # b # c # cs) = ((a = 10 \<and> b = 10 \<and> c = 10) \<or> has_run3 (b # c # cs))"
| "has_run3 _ = False"

section \<open>Example inputs\<close>

subsection \<open>Index files and stores\<close>

definition chunk :: "string \<Rightarrow> document" where
  "chunk s = \<lparr>page_content = ustr s, metadata = []\<rparr>"

definition example_chunks :: "document list" where
  "example_chunks = [chunk ''Nodes'', chunk ''Edges'', chunk ''State'', chunk ''Graphs'']"

text \<open>A store that answers every query with its first \<open>k\<close> chunks.\<close>

definition example_store :: vectorstore where
  "example_store = VectorStore (\<lambda>k query. Inr (take k example_chunks))"

definition env_loaded :: vs_env where
  "env_loaded =
     \<lparr>PERSIST_PATH = ustr ''/srv/sklearn_vectorstore.parquet'',
      path_exists = (\<lambda>p. True),
      SKLearnVectorStore = (\<lambda>p. Inr example_store)\<rparr>"

definition env_absent :: vs_env where
  "env_absent = env_loaded\<lparr>path_exists := (\<lambda>p. False)\<rparr>"

definition env_corrupt :: vs_env where
  "env_corrupt =
     env_loaded\<lparr>SKLearnVectorStore := (\<lambda>p. Inl (OtherException (ustr ''not a parquet file'')))\<rparr>"




subsection \<open>Pages\<close>

definition raw_page :: pystr where
  "raw_page = ustr ''<p>a'' @ [10, 10, 10] @ ustr ''b</p>''"

definition article_page :: pystr where
  "article_page =
     ustr ''<nav>Docs</nav><article class=md-content__inner>'' @ [10, 10]
     @ ustr ''Graphs'' @ [10, 10, 10, 10] @ ustr ''Nodes '' @ [10] @ ustr ''</article>''"

text \<open>
  A parser that knows these two pages: the first has no \<open>article\<close> element, the
  second has one of class \<open>md-content__inner\<close>.
\<close>

definition example_bs :: "pystr \<Rightarrow> pystr \<Rightarrow> soup" where
  "example_bs html features =
     (if html = raw_page then
        \<lparr>soup_find = (\<lambda>name cls. None), soup_text = ustr ''a'' @ [10, 10, 10] @ ustr ''b''\<rparr>
      else if html = article_page then
        \<lparr>soup_find =
           (\<lambda>name cls.
              if name = ustr ''article'' \<and> cls = ustr ''md-content__inner''
              then Some (Tag ([10, 10] @ ustr ''Graphs'' @ [10, 10, 10, 10] @ ustr ''Nodes '' @ [10]))
              else None),
         soup_text = ustr ''Docs'' @ [10, 10] @ ustr ''Graphs'' @ [10, 10, 10, 10]
                     @ ustr ''Nodes '' @ [10]\<rparr>
      else \<lparr>soup_find = (\<lambda>name cls. None), soup_text = []\<rparr>)"

subsection \<open>Configuration files\<close>

definition guides_config :: pyval where
  "guides_config =
     PDict [(ustr ''langraph'',
             PDict [(ustr ''concepts'',
                     PDict [(ustr ''guides'',
                             PList [PDict [(ustr ''url'', PStr (ustr ''https://example.org/a/''))],
                                    PDict [(ustr ''url'', PStr (ustr ''https://example.org/b/''))]])])])]"

definition links_only_config :: pyval where
  "links_only_config =
     PDict [(ustr ''langraph'',
             PDict [(ustr ''tutorials'',
                     PDict [(ustr ''links'',
                             PList [PDict [(ustr ''url'', PStr (ustr ''https://example.org/t/''))]])])])]"

text \<open>
  Surroundings in which the file parses to \<open>guides_config\<close>, every URL serves the
  one page \<open>article_page\<close>, and the tokenizer makes one token of each character.
\<close>

definition env_guides :: doc_env where
  "env_guides =
     \<lparr>open_read = (\<lambda>path. Inr (ustr ''langraph: ...'')),
      yaml_safe_load = (\<lambda>file. Inr guides_config),
      RecursiveUrlLoader =
        (\<lambda>url depth extractor.
           Inr [\<lparr>page_content = extractor article_page, metadata = [(ustr ''source'', url)]\<rparr>]),
      BeautifulSoup = example_bs,
      tiktoken_encode = (\<lambda>model text. Inr text)\<rparr>"

text \<open>The documents that crawl yields, once extracted.\<close>

definition loaded_docs :: "document list" where
  "loaded_docs =
     [\<lparr>page_content = ustr ''Graphs'' @ [10, 10] @ ustr ''Nodes'',
       metadata = [(ustr ''source'', PStr (ustr ''https://example.org/a/''))]\<rparr>,
      \<lparr>page_content = ustr ''Graphs'' @ [10, 10] @ ustr ''Nodes'',
       metadata = [(ustr ''source'', PStr (ustr ''https://example.org/b/''))]\<rparr>]"

definition env_links_only :: doc_env where
  "env_links_only = env_guides\<lparr>yaml_safe_load := (\<lambda>file. Inr links_only_config)\<rparr>"

definition env_missing :: doc_env where
  "env_missing = env_guides\<lparr>open_read := (\<lambda>path. Inl FileNotFoundError)\<rparr>"

definition env_unparseable :: doc_env where
  "env_unparseable =
     env_guides\<lparr>yaml_safe_load := (\<lambda>file. Inl (YAMLError (ustr ''mapping values are not allowed here'')))\<rparr>"

text \<open>
  Surroundings in which the file exists but its bytes (\<open>0xFF 0xFE\<close>) are not
  UTF-8: \<open>open\<close> succeeds, and reading the stream inside \<open>yaml.safe_load\<close>
  raises \<open>UnicodeDecodeError\<close>, which is not a \<open>YAMLError\<close>.
\<close>

definition env_undecodable :: doc_env where
  "env_undecodable =
     env_guides\<lparr>open_read := (\<lambda>path. Inr [255, 254]),
                yaml_safe_load := (\<lambda>file. Inl (OtherException (ustr ''UnicodeDecodeError'')))\<rparr>"

section \<open>Loading the index\<close>

text \<open>
  C3. Whatever the file system holds, \<open>load_vectorstore\<close> returns and does not
  raise. When nothing exists at \<open>PERSIST_PATH\<close> it returns \<open>None\<close>. When the
  file exists and constructing the store from it raises an exception, the exception
  is caught, an error message carrying it is logged, and \<open>None\<close> is returned.
\<close>

theorem load_vectorstore_never_raises:
  "(\<exists>t r. load_vectorstore env = (t, Inr r))
   \<and> (\<not> path_exists env (PERSIST_PATH env) \<longrightarrow> snd (load_vectorstore env) = Inr None)
   \<and> (\<forall>e. path_exists env (PERSIST_PATH env)
            \<and> SKLearnVectorStore env (PERSIST_PATH env) = Inl e \<longrightarrow>
          snd (load_vectorstore env) = Inr None
          \<and> Log ERROR [Lit (ustr ''Error loading vector store: ''), ArgExn e]
              \<in> set (fst (load_vectorstore env)))"
  by (auto simp: load_vectorstore_def logger_error_def Let_def split: sum.splits)

theorem load_vectorstore_never_raises_witness:
  "\<not> path_exists env_absent (PERSIST_PATH env_absent)
   \<and> snd (load_vectorstore env_absent) = Inr None
   \<and> path_exists env_corrupt (PERSIST_PATH env_corrupt)
   \<and> SKLearnVectorStore env_corrupt (PERSIST_PATH env_corrupt)
       = Inl (OtherException (ustr ''not a parquet file''))
   \<and> snd (load_vectorstore env_corrupt) = Inr None
   \<and> Log ERROR [Lit (ustr ''Error loading vector store: ''),
                 ArgExn (OtherException (ustr ''not a parquet file''))]
       \<in> set (fst (load_vectorstore env_corrupt))"
proof -
  have a: "\<not> path_exists env_absent (PERSIST_PATH env_absent)"
    by (simp add: env_absent_def env_loaded_def)
  have b: "path_exists env_corrupt (PERSIST_PATH env_corrupt)
           \<and> SKLearnVectorStore env_corrupt (PERSIST_PATH env_corrupt)
               = Inl (OtherException (ustr ''not a parquet file''))"
    by (simp add: env_corrupt_def env_loaded_def)
  from a have "snd (load_vectorstore env_absent) = Inr None"
    using load_vectorstore_never_raises [of env_absent] by blast
  moreover from b have "snd (load_vectorstore env_corrupt) = Inr None
      \<and> Log ERROR [Lit (ustr ''Error loading vector store: ''),
                    ArgExn (OtherException (ustr ''not a parquet file''))]
          \<in> set (fst (load_vectorstore env_corrupt))"
    using load_vectorstore_never_raises [of env_corrupt] by blast
  ultimately show ?thesis using a b by blast
qed

section \<open>The query tool\<close>

text \<open>
  C2. When nothing exists at \<open>PERSIST_PATH\<close>, then for every query
  \<open>load_vectorstore\<close> returns \<open>None\<close> and \<open>langgraph_query_tool\<close> raises the
  \<open>AttributeError\<close> of \<open>None.as_retriever\<close>: it returns no text block.
\<close>

theorem query_tool_raises_without_index:
  assumes "\<not> path_exists env (PERSIST_PATH env)"
  shows "snd (load_vectorstore env) = Inr None
         \<and> snd (langgraph_query_tool env query) = Inl AttributeError"
  using assms by (simp add: langgraph_query_tool_def load_vectorstore_def)

theorem query_tool_raises_without_index_witness:
  "\<not> path_exists env_absent (PERSIST_PATH env_absent)
   \<and> snd (langgraph_query_tool env_absent (ustr ''what is a node?'')) = Inl AttributeError"
proof -
  have a: "\<not> path_exists env_absent (PERSIST_PATH env_absent)"
    by (simp add: env_absent_def env_loaded_def)
  from query_tool_raises_without_index [OF a, of "ustr ''what is a node?''"] a
  show ?thesis by simp
qed

subsection \<open>Counting the separator text\<close>
















section \<open>The extractor\<close>

subsection \<open>Collapsing newline runs\<close>

lemma re_sub_newlines_hd:
  "re_sub_newlines (c # cs) = c # tl (re_sub_newlines (c # cs))"
  by (cases cs) auto

lemma has_run3_at: "has_run3 (xs @ [10, 10, 10] @ ys)"
  by (induction xs rule: has_run3.induct) auto

lemma has_run3_suffix: "has_run3 ys \<Longrightarrow> has_run3 (xs @ ys)"
proof (induction xs)
  case (Cons x xs)
  then show ?case by (cases "xs @ ys" rule: has_run3.cases) auto
qed simp

lemma has_run3_prefix: "has_run3 xs \<Longrightarrow> has_run3 (xs @ ys)"
  by (induction xs rule: has_run3.induct) auto

lemma dropWhile_not_hd: "dropWhile P xs = y # ys \<Longrightarrow> \<not> P y"
  by (metis dropWhile_eq_Cons_conv)

text \<open>
  After the substitution a run of newlines has length one or two: what follows a
  replaced run is not a newline, and the first character of the result is the first
  character of the input.
\<close>

lemma no_run3_re_sub: "\<not> has_run3 (re_sub_newlines s)"
proof (induction s rule: re_sub_newlines.induct)
  case (3 c d cs)
  show ?case
  proof (cases "c = 10 \<and> d = 10")
    case True
    let ?r = "dropWhile (\<lambda>x. x = 10) cs"
    from True 3 have ih: "\<not> has_run3 (re_sub_newlines ?r)" by simp
    show ?thesis
    proof (cases ?r)
      case Nil
      with True show ?thesis by (simp del: dropWhile_eq_Nil_conv)
    next
      case (Cons y ys)
      then have "y \<noteq> 10" using dropWhile_not_hd[of "\<lambda>x. x = 10" cs y ys] by simp
      moreover have "re_sub_newlines ?r = y # tl (re_sub_newlines (y # ys))"
        using Cons re_sub_newlines_hd[of y ys] by simp
      ultimately show ?thesis using True ih
        by (cases "tl (re_sub_newlines (y # ys))") auto
    qed
  next
    case False
    with 3 have ih: "\<not> has_run3 (re_sub_newlines (d # cs))" by simp
    have "re_sub_newlines (d # cs) = d # tl (re_sub_newlines (d # cs))"
      by (rule re_sub_newlines_hd)
    then show ?thesis using False ih
      by (cases "tl (re_sub_newlines (d # cs))") (auto split: if_splits)
  qed
qed simp_all

subsection \<open>Stripping\<close>

lemma takeWhile_dropWhile_Nil: "takeWhile P (dropWhile P xs) = []"
  by (induction xs) auto

text \<open>The stripped string is what remains of the left-stripped one without its tail.\<close>

lemma strip_prefix_of_lstrip:
  "dropWhile py_isspace s
     = strip s @ rev (takeWhile py_isspace (rev (dropWhile py_isspace s)))"
proof -
  let ?u = "dropWhile py_isspace s"
  have "rev ?u = takeWhile py_isspace (rev ?u) @ dropWhile py_isspace (rev ?u)" by simp
  then have "?u = rev (dropWhile py_isspace (rev ?u)) @ rev (takeWhile py_isspace (rev ?u))"
    by (metis rev_append rev_rev_ident)
  then show ?thesis by (simp add: strip_def)
qed

lemma strip_infix: "\<exists>us vs. s = us @ strip s @ vs"
proof -
  have "s = takeWhile py_isspace s @ dropWhile py_isspace s" by simp
  then have "s = takeWhile py_isspace s @ strip s
                 @ rev (takeWhile py_isspace (rev (dropWhile py_isspace s)))"
    using strip_prefix_of_lstrip[of s] by simp
  then show ?thesis by blast
qed

lemma strip_trailing: "takeWhile py_isspace (rev (strip s)) = []"
  by (simp add: strip_def takeWhile_dropWhile_Nil)

lemma strip_leading: "takeWhile py_isspace (strip s) = []"
proof (cases "strip s")
  case Nil
  then show ?thesis by simp
next
  case (Cons y ys)
  then have "dropWhile py_isspace s
             = y # (ys @ rev (takeWhile py_isspace (rev (dropWhile py_isspace s))))"
    using strip_prefix_of_lstrip[of s] by simp
  then have "\<not> py_isspace y" by (rule dropWhile_not_hd)
  with Cons show ?thesis by simp
qed

lemma strip_no_run3: "\<not> has_run3 s \<Longrightarrow> \<not> has_run3 (strip s)"
proof
  assume a: "\<not> has_run3 s" and b: "has_run3 (strip s)"
  obtain us vs where "s = us @ strip s @ vs" using strip_infix by blast
  with b have "has_run3 s" by (metis has_run3_prefix has_run3_suffix)
  with a show False by simp
qed

text \<open>
  C10. For every page, the string \<open>bs4_extractor\<close> returns starts with no
  whitespace, ends with no whitespace, and nowhere holds three newlines in a row.
\<close>

theorem bs4_extractor_normalised:
  "takeWhile py_isspace (bs4_extractor bs html) = []
   \<and> takeWhile py_isspace (rev (bs4_extractor bs html)) = []
   \<and> (\<nexists>xs ys. bs4_extractor bs html = xs @ [10, 10, 10] @ ys)"
proof -
  obtain content where r: "bs4_extractor bs html = strip (re_sub_newlines content)"
    by (simp add: bs4_extractor_def Let_def)
  have "\<not> has_run3 (strip (re_sub_newlines content))"
    using no_run3_re_sub by (rule strip_no_run3)
  then have "\<nexists>xs ys. strip (re_sub_newlines content) = xs @ [10, 10, 10] @ ys"
    using has_run3_at by metis
  then show ?thesis using r strip_leading strip_trailing by simp
qed

subsection \<open>The fallback\<close>

lemma bs4_extractor_raw_page:
  "bs4_extractor example_bs raw_page = ustr ''a'' @ [10, 10] @ ustr ''b''"
  by (simp add: bs4_extractor_def example_bs_def raw_page_def ustr_def strip_def
      py_isspace_def)

lemma bs4_extractor_article_page:
  "bs4_extractor example_bs article_page = ustr ''Graphs'' @ [10, 10] @ ustr ''Nodes''"
  by (simp add: bs4_extractor_def example_bs_def article_page_def raw_page_def ustr_def
      strip_def py_isspace_def)

text \<open>
  C6, as stated, fails: on the page \<open>raw_page\<close>, where no element matches the
  selector, the extractor does not return the text of the page as it is (three
  newlines between \<open>a\<close> and \<open>b\<close>) but that text with the newline run collapsed.
\<close>

theorem bs4_extractor_fallback_not_raw:
  "soup_find (example_bs raw_page (ustr ''lxml'')) (ustr ''article'') (ustr ''md-content__inner'')
     = None
   \<and> soup_text (example_bs raw_page (ustr ''lxml'')) = ustr ''a'' @ [10, 10, 10] @ ustr ''b''
   \<and> bs4_extractor example_bs raw_page \<noteq> soup_text (example_bs raw_page (ustr ''lxml''))"
  by (simp add: bs4_extractor_raw_page) (simp add: example_bs_def ustr_def)

text \<open>
  C6, amended. When no element matches the selector, the extractor falls back to
  the text of the whole page and returns it normalised as on the other path:
  newline runs collapsed, then stripped.
\<close>

theorem bs4_extractor_fallback:
  assumes "soup_find (bs html (ustr ''lxml'')) (ustr ''article'') (ustr ''md-content__inner'')
             = None"
  shows "bs4_extractor bs html = strip (re_sub_newlines (soup_text (bs html (ustr ''lxml''))))"
  using assms by (simp add: bs4_extractor_def Let_def)

theorem bs4_extractor_fallback_witness:
  "soup_find (example_bs raw_page (ustr ''lxml'')) (ustr ''article'') (ustr ''md-content__inner'')
     = None
   \<and> bs4_extractor example_bs raw_page
       = strip (re_sub_newlines (ustr ''a'' @ [10, 10, 10] @ ustr ''b''))
   \<and> strip (re_sub_newlines (ustr ''a'' @ [10, 10, 10] @ ustr ''b''))
       = ustr ''a'' @ [10, 10] @ ustr ''b''"
proof -
  have a: "soup_find (example_bs raw_page (ustr ''lxml'')) (ustr ''article'')
             (ustr ''md-content__inner'') = None"
    by (simp add: example_bs_def)
  have b: "soup_text (example_bs raw_page (ustr ''lxml'')) = ustr ''a'' @ [10, 10, 10] @ ustr ''b''"
    by (simp add: example_bs_def)
  have c: "strip (re_sub_newlines (ustr ''a'' @ [10, 10, 10] @ ustr ''b''))
             = ustr ''a'' @ [10, 10] @ ustr ''b''"
    by (simp add: ustr_def strip_def py_isspace_def)
  from bs4_extractor_fallback [of example_bs raw_page, OF a] a b c show ?thesis by simp
qed

section \<open>Loading the documentation\<close>

lemma map_exn_Inr:
  "map_exn f xs = Inr ys \<Longrightarrow>
   length ys = length xs \<and> (\<forall>i < length xs. f (xs ! i) = Inr (ys ! i))"
proof (induction xs arbitrary: ys)
  case Nil
  then show ?case by simp
next
  case (Cons x xs)
  then show ?case
    by (auto split: sum.splits simp: nth_Cons split: nat.splits)
qed

text \<open>
  C4, as stated, fails: not every file that fails to parse makes
  \<open>yaml.safe_load\<close> raise a \<open>YAMLError\<close>, the one class the second handler
  names. In \<open>env_undecodable\<close> the file opens, reading it raises
  \<open>UnicodeDecodeError\<close>, and \<open>load_langgraph_docs\<close> raises it on: no empty
  result is returned and no error is logged.
\<close>

theorem load_langgraph_docs_undecodable_raises:
  "open_read env_undecodable yaml_file_path = Inr [255, 254]
   \<and> yaml_safe_load env_undecodable [255, 254]
       = Inl (OtherException (ustr ''UnicodeDecodeError''))
   \<and> load_langgraph_docs env_undecodable
       = ([Log INFO [Lit (ustr ''Loading LangGraph documentation...'')]],
          Inl (OtherException (ustr ''UnicodeDecodeError'')))
   \<and> snd (load_langgraph_docs env_undecodable) \<noteq> Inr ([], [])"
proof -
  have a: "read_config env_undecodable = Inl (OtherException (ustr ''UnicodeDecodeError''))"
    by (simp add: read_config_def env_undecodable_def env_guides_def)
  have b: "load_langgraph_docs env_undecodable
             = ([Log INFO [Lit (ustr ''Loading LangGraph documentation...'')]],
                Inl (OtherException (ustr ''UnicodeDecodeError'')))"
    by (simp add: load_langgraph_docs_def a logger_info_def)
  show ?thesis
    by (simp add: b) (simp add: env_undecodable_def env_guides_def)
qed

text \<open>
  C4, amended. When \<open>langraph-doc.yaml\<close> is missing (opening it raises
  \<open>FileNotFoundError\<close>), or opens and \<open>yaml.safe_load\<close> raises a
  \<open>yaml.YAMLError\<close> on it, \<open>load_langgraph_docs\<close> logs the error and returns
  the empty document list with the empty token-count list; it does not raise.
\<close>

theorem load_langgraph_docs_bad_config:
  "(open_read env yaml_file_path = Inl FileNotFoundError \<longrightarrow>
      snd (load_langgraph_docs env) = Inr ([], [])
      \<and> Log ERROR [Lit (ustr ''YAML file not found: ''), ArgStr yaml_file_path]
          \<in> set (fst (load_langgraph_docs env)))
   \<and> (\<forall>file m. open_read env yaml_file_path = Inr file
                \<and> yaml_safe_load env file = Inl (YAMLError m) \<longrightarrow>
         snd (load_langgraph_docs env) = Inr ([], [])
         \<and> Log ERROR [Lit (ustr ''Error loading YAML file: ''), ArgExn (YAMLError m)]
             \<in> set (fst (load_langgraph_docs env)))"
  by (simp add: load_langgraph_docs_def read_config_def logger_error_def)

theorem load_langgraph_docs_bad_config_witness:
  "open_read env_missing yaml_file_path = Inl FileNotFoundError
   \<and> snd (load_langgraph_docs env_missing) = Inr ([], [])
   \<and> Log ERROR [Lit (ustr ''YAML file not found: ''), ArgStr yaml_file_path]
       \<in> set (fst (load_langgraph_docs env_missing))
   \<and> open_read env_unparseable yaml_file_path = Inr (ustr ''langraph: ...'')
   \<and> yaml_safe_load env_unparseable (ustr ''langraph: ...'')
       = Inl (YAMLError (ustr ''mapping values are not allowed here''))
   \<and> snd (load_langgraph_docs env_unparseable) = Inr ([], [])
   \<and> Log ERROR [Lit (ustr ''Error loading YAML file: ''),
                 ArgExn (YAMLError (ustr ''mapping values are not allowed here''))]
       \<in> set (fst (load_langgraph_docs env_unparseable))"
proof -
  have a: "open_read env_missing yaml_file_path = Inl FileNotFoundError"
    by (simp add: env_missing_def env_guides_def)
  have b: "open_read env_unparseable yaml_file_path = Inr (ustr ''langraph: ...'')
           \<and> yaml_safe_load env_unparseable (ustr ''langraph: ...'')
               = Inl (YAMLError (ustr ''mapping values are not allowed here''))"
    by (simp add: env_unparseable_def env_guides_def)
  from a have "snd (load_langgraph_docs env_missing) = Inr ([], [])
      \<and> Log ERROR [Lit (ustr ''YAML file not found: ''), ArgStr yaml_file_path]
          \<in> set (fst (load_langgraph_docs env_missing))"
    using load_langgraph_docs_bad_config [of env_missing] by blast
  moreover from b have "snd (load_langgraph_docs env_unparseable) = Inr ([], [])
      \<and> Log ERROR [Lit (ustr ''Error loading YAML file: ''),
                    ArgExn (YAMLError (ustr ''mapping values are not allowed here''))]
          \<in> set (fst (load_langgraph_docs env_unparseable))"
    using load_langgraph_docs_bad_config [of env_unparseable] by blast
  ultimately show ?thesis using a b by blast
qed

text \<open>
  C9. Whenever \<open>load_langgraph_docs\<close> returns, its two lists have the same
  length, and the token count at each index is \<open>count_tokens\<close> of the page content
  of the document at that index (with the default encoding \<open>cl100k_base\<close>).
\<close>

theorem load_langgraph_docs_token_counts:
  assumes "load_langgraph_docs env = (t, Inr (docs, tokens_per_doc))"
  shows "length docs = length tokens_per_doc
         \<and> (\<forall>i < length docs.
               count_tokens env (page_content (docs ! i)) (ustr ''cl100k_base'')
                 = Inr (tokens_per_doc ! i))"
  using assms
  by (auto simp: load_langgraph_docs_def Let_def split: sum.splits exn.splits
      dest!: map_exn_Inr)

lemma extract_urls_guides_config:
  "extract_urls guides_config
     = Inr [(ustr ''concepts'',
             [PStr (ustr ''https://example.org/a/''), PStr (ustr ''https://example.org/b/'')])]"
  by (simp add: extract_urls_def guides_config_def guide_urls_def ustr_def)

lemma load_langgraph_docs_env_guides:
  "snd (load_langgraph_docs env_guides) = Inr (loaded_docs, [13, 13])"
proof -
  have a: "read_config env_guides = Inr guides_config"
    by (simp add: read_config_def env_guides_def)
  have b: "load_all env_guides
             [(ustr ''concepts'',
               [PStr (ustr ''https://example.org/a/''), PStr (ustr ''https://example.org/b/'')])]
           = Inr loaded_docs"
    by (simp add: load_all_def env_guides_def bs4_extractor_article_page loaded_docs_def)
  have c: "map_exn (\<lambda>doc. count_tokens env_guides (page_content doc) (ustr ''cl100k_base''))
             loaded_docs = Inr [13, 13]"
    by (simp add: count_tokens_def env_guides_def loaded_docs_def ustr_def)
  show ?thesis
    by (simp add: load_langgraph_docs_def Let_def a b c extract_urls_guides_config)
qed

theorem load_langgraph_docs_token_counts_witness:
  "snd (load_langgraph_docs env_guides) = Inr (loaded_docs, [13, 13])
   \<and> length loaded_docs = length [13, 13 :: nat]
   \<and> count_tokens env_guides (page_content (loaded_docs ! 0)) (ustr ''cl100k_base'')
       = Inr ([13, 13] ! 0)
   \<and> count_tokens env_guides (page_content (loaded_docs ! 1)) (ustr ''cl100k_base'')
       = Inr ([13, 13] ! 1)"
proof -
  have "load_langgraph_docs env_guides
          = (fst (load_langgraph_docs env_guides), Inr (loaded_docs, [13, 13]))"
    using load_langgraph_docs_env_guides by (simp add: prod_eq_iff)
  from load_langgraph_docs_token_counts [OF this]
  have "length loaded_docs = length [13, 13 :: nat]"
    and "\<forall>i < length loaded_docs.
           count_tokens env_guides (page_content (loaded_docs ! i)) (ustr ''cl100k_base'')
             = Inr ([13, 13] ! i)"
    by simp_all
  moreover have "0 < length loaded_docs" and "1 < length loaded_docs"
    by (simp_all add: loaded_docs_def)
  ultimately show ?thesis
    using load_langgraph_docs_env_guides by blast
qed

section \<open>URL extraction\<close>

text \<open>
  The branch taken for a category that has \<open>guides\<close>: when it yields a list, the
  list holds the \<open>url\<close> of every guide entry, in order, and nothing else.
\<close>

lemma guide_urls_exact:
  assumes "guide_urls content = Inr us"
  shows "\<exists>gs guides. py_getitem content (ustr ''guides'') = Inr gs
           \<and> py_iter gs = Inr guides
           \<and> length us = length guides
           \<and> (\<forall>i < length guides. py_getitem (guides ! i) (ustr ''url'') = Inr (us ! i))"
  using assms
  by (auto simp: guide_urls_def split: sum.splits dest!: map_exn_Inr)

text \<open>
  The branch taken for a category that has no \<open>guides\<close> but has \<open>links\<close> reads
  \<open>content["guides"]\<close> first, so it raises on every content that reaches it.
\<close>

lemma link_urls_raises:
  "py_contains (ustr ''guides'') content = Inr False \<Longrightarrow> \<exists>e. link_urls content = Inl e"
proof (cases content)
  case (PDict kvs)
  assume "py_contains (ustr ''guides'') content = Inr False"
  with PDict have "ustr ''guides'' \<notin> fst ` set kvs" by simp
  then have "map_of kvs (ustr ''guides'') = None"
    by (simp add: map_of_eq_None_iff)
  with PDict show ?thesis by (simp add: link_urls_def)
qed (simp_all add: link_urls_def)

text \<open>
  C1 asks for the \<open>url\<close> of every guide entry and of every link entry. On the
  configuration \<open>links_only_config\<close>, whose one category holds \<open>links\<close> and no
  \<open>guides\<close>, the extraction yields no URL list: it raises \<open>KeyError('guides')\<close>,
  and \<open>load_langgraph_docs\<close> raises with it.
\<close>

theorem extract_urls_links_only_raises:
  "extract_urls links_only_config = Inl (KeyError (ustr ''guides''))
   \<and> snd (load_langgraph_docs env_links_only) = Inl (KeyError (ustr ''guides''))"
proof -
  have a: "extract_urls links_only_config = Inl (KeyError (ustr ''guides''))"
    by (simp add: extract_urls_def links_only_config_def link_urls_def ustr_def)
  have "read_config env_links_only = Inr links_only_config"
    by (simp add: read_config_def env_links_only_def env_guides_def)
  with a show ?thesis
    by (simp add: load_langgraph_docs_def)
qed

end
